theory Spec2Isabelle
  imports Complex_Main
begin

section \<open>Strings and numbers as JavaScript prints and searches them\<close>

text \<open>
  \<^verbatim>\<open>String.prototype.includes\<close>: does \<open>sub\<close> occur as a contiguous run inside \<open>s\<close>.
\<close>

fun startsWith :: "string \<Rightarrow> string \<Rightarrow> bool" where
  "startsWith s [] = True"
| "startsWith [] (c # cs) = False"
| "startsWith (x # xs) (c # cs) = (x = c \<and> startsWith xs cs)"

fun str_includes :: "string \<Rightarrow> string \<Rightarrow> bool" where
  "str_includes [] sub = (sub = [])"
| "str_includes (x # xs) sub = (startsWith (x # xs) sub \<or> str_includes xs sub)"

text \<open>Decimal rendering of a non-negative integer inside a template literal.\<close>

fun show_nat :: "nat \<Rightarrow> string" where
  "show_nat n = (if n < 10 then [char_of (48 + n)]
                 else show_nat (n div 10) @ [char_of (48 + n mod 10)])"

declare show_nat.simps [simp del]

section \<open>The rules library (chess.js) at its interface\<close>

text \<open>
  The repository has no chess rules of its own: every position query goes to a
  \<^verbatim>\<open>Chess\<close> instance of chess.js. Each instance the code queries has just been built or
  loaded from a FEN string (\<^verbatim>\<open>new Chess(fen)\<close>, \<^verbatim>\<open>chessRef.current.load(fen)\<close>), so the
  library is taken as a parameter: a record of functions of the FEN.

  \<^item> \<open>load\<close>: \<open>Some e\<close> when constructing or loading from the FEN throws \<open>e\<close>;
  \<^item> \<open>moves\<close>: \<^verbatim>\<open>chess.moves({ verbose: true })\<close>;
  \<^item> \<open>move\<close>: \<^verbatim>\<open>chess.move(descriptor)\<close> followed by \<^verbatim>\<open>chess.fen()\<close>; \<open>Inl e\<close> when the
    call throws \<open>e\<close> (the library's \<^verbatim>\<open>move\<close> has return type \<^verbatim>\<open>Move\<close> and rejects a
    descriptor that matches no legal move by throwing);
  \<^item> the status predicates, \<open>turn\<close> and \<open>board\<close> as named in the library.
\<close>

datatype color = White | Black

record jserror =
  err_name :: string
  err_message :: string

text \<open>The fields of a verbose \<^verbatim>\<open>Move\<close> that the repository reads.\<close>

record Move =
  m_from :: string
  m_to :: string
  m_promotion :: "string option"
  m_piece :: string
  m_captured :: "string option"
  m_san :: string

text \<open>The object literal handed to \<^verbatim>\<open>chess.move\<close>.\<close>

record MoveDescr =
  d_from :: string
  d_to :: string
  d_promotion :: "string option"

record Piece =
  p_type :: string
  p_color :: color

record engine =
  load :: "string \<Rightarrow> jserror option"
  moves :: "string \<Rightarrow> Move list"
  move :: "string \<Rightarrow> MoveDescr \<Rightarrow> jserror + (Move \<times> string)"
  isCheck :: "string \<Rightarrow> bool"
  isCheckmate :: "string \<Rightarrow> bool"
  isStalemate :: "string \<Rightarrow> bool"
  isInsufficientMaterial :: "string \<Rightarrow> bool"
  isThreefoldRepetition :: "string \<Rightarrow> bool"
  isDraw :: "string \<Rightarrow> bool"
  turn :: "string \<Rightarrow> color"
  board :: "string \<Rightarrow> Piece option list list"

section \<open>Game types (app/types/game.ts)\<close>

datatype GameResult = R_player | R_ai | R_draw

datatype GameStatus = Waiting | Playing | Ended

datatype ResultReason =
  Checkmate | Stalemate | Time | Resignation | Insufficient | Repetition | FiftyMove

text \<open>\<^verbatim>\<open>null\<close> is \<open>None\<close> in \<open>result\<close>, \<open>resultReason\<close> and \<open>checkSquare\<close>.\<close>

record GameState =
  fen :: string
  isPlayerTurn :: bool
  gameStatus :: GameStatus
  result :: "GameResult option"
  resultReason :: "ResultReason option"
  inCheck :: bool
  checkSquare :: "string option"

datatype Mover = You | AI

record ChessMove =
  h_san :: string
  h_player :: Mover
  h_fen :: string
  h_piece :: string
  h_from :: string
  h_to :: string
  h_captured :: "string option"
  h_check :: bool
  h_checkmate :: bool
  h_reasoning :: "string option"

text \<open>
  \<^verbatim>\<open>Partial<GameState>\<close> as \<^verbatim>\<open>checkGameStatus\<close> returns it: every branch sets
  \<^verbatim>\<open>gameStatus\<close>, \<^verbatim>\<open>inCheck\<close> and \<^verbatim>\<open>checkSquare\<close>; the keys \<^verbatim>\<open>result\<close> and
  \<^verbatim>\<open>resultReason\<close> are present only in the branches that end the game
  (\<open>None\<close>: the key is absent).
\<close>

record StatusUpdate =
  u_gameStatus :: GameStatus
  u_result :: "GameResult option option"
  u_resultReason :: "ResultReason option option"
  u_inCheck :: bool
  u_checkSquare :: "string option"

text \<open>The object spread \<^verbatim>\<open>{ ...prev, ...status }\<close>: present keys overwrite.\<close>

definition spread :: "GameState \<Rightarrow> StatusUpdate \<Rightarrow> GameState" where
  "spread prev u =
     prev\<lparr> gameStatus := u_gameStatus u,
           result := (case u_result u of None \<Rightarrow> result prev | Some r \<Rightarrow> r),
           resultReason := (case u_resultReason u of None \<Rightarrow> resultReason prev | Some r \<Rightarrow> r),
           inCheck := u_inCheck u,
           checkSquare := u_checkSquare u \<rparr>"

section \<open>The page component: status check\<close>

text \<open>
  \<^verbatim>\<open>findKingSquare\<close>: rows \<open>i = 0..7\<close>, columns \<open>j = 0..7\<close> of \<^verbatim>\<open>chess.board()\<close>, first
  king of the colour in row-major order, named
  \<^verbatim>\<open>String.fromCharCode(97 + j) + (8 - i)\<close>.
\<close>

fun scanRow :: "Piece option list \<Rightarrow> color \<Rightarrow> nat \<Rightarrow> nat \<Rightarrow> string option" where
  "scanRow [] c i j = None"
| "scanRow (sq # rest) c i j =
     (case sq of
        None \<Rightarrow> scanRow rest c i (j + 1)
      | Some piece \<Rightarrow>
          if p_type piece = ''k'' \<and> p_color piece = c
          then Some (char_of (97 + j) # show_nat (8 - i))
          else scanRow rest c i (j + 1))"

fun scanBoard :: "Piece option list list \<Rightarrow> color \<Rightarrow> nat \<Rightarrow> string option" where
  "scanBoard [] c i = None"
| "scanBoard (row # rows) c i =
     (case scanRow (take 8 row) c i 0 of
        Some sq \<Rightarrow> Some sq
      | None \<Rightarrow> scanBoard rows c (i + 1))"

definition findKingSquare :: "engine \<Rightarrow> string \<Rightarrow> color \<Rightarrow> string option" where
  "findKingSquare E chess c = scanBoard (take 8 (board E chess)) c 0"

definition checkGameStatus :: "engine \<Rightarrow> string \<Rightarrow> StatusUpdate" where
  "checkGameStatus E chess =
     (if isCheckmate E chess then
        \<lparr> u_gameStatus = Ended,
          u_result = Some (Some (if turn E chess = White then R_ai else R_player)),
          u_resultReason = Some (Some Checkmate),
          u_inCheck = True,
          u_checkSquare = findKingSquare E chess (turn E chess) \<rparr>
      else if isStalemate E chess then
        \<lparr> u_gameStatus = Ended, u_result = Some (Some R_draw),
          u_resultReason = Some (Some Stalemate),
          u_inCheck = False, u_checkSquare = None \<rparr>
      else if isInsufficientMaterial E chess then
        \<lparr> u_gameStatus = Ended, u_result = Some (Some R_draw),
          u_resultReason = Some (Some Insufficient),
          u_inCheck = False, u_checkSquare = None \<rparr>
      else if isThreefoldRepetition E chess then
        \<lparr> u_gameStatus = Ended, u_result = Some (Some R_draw),
          u_resultReason = Some (Some Repetition),
          u_inCheck = False, u_checkSquare = None \<rparr>
      else if isDraw E chess then
        \<lparr> u_gameStatus = Ended, u_result = Some (Some R_draw),
          u_resultReason = Some (Some FiftyMove),
          u_inCheck = False, u_checkSquare = None \<rparr>
      else if isCheck E chess then
        \<lparr> u_gameStatus = Playing, u_result = None, u_resultReason = None,
          u_inCheck = True,
          u_checkSquare = findKingSquare E chess (turn E chess) \<rparr>
      else
        \<lparr> u_gameStatus = Playing, u_result = None, u_resultReason = None,
          u_inCheck = False, u_checkSquare = None \<rparr>)"

section \<open>generateMove (lib/chess-ai.ts)\<close>

text \<open>
  The services outside the repository that \<^verbatim>\<open>generateMove\<close> calls, as parameters:
  \<^item> \<open>generateText\<close>: the completion call for an API key, a model name and a prompt;
    \<open>Inl e\<close> when the awaited call rejects with \<open>e\<close>, \<open>Inr text\<close> otherwise;
  \<^item> \<open>parseResponse\<close>: \<^verbatim>\<open>moveResponseSchema.parse(JSON.parse(text))\<close>; \<open>Inl e\<close> is the
    \<^verbatim>\<open>SyntaxError\<close> or \<^verbatim>\<open>ZodError\<close> thrown;
  \<^item> \<open>stringify\<close>: \<^verbatim>\<open>JSON.stringify(formattedMoves, null, 2)\<close>.
\<close>

record ParsedResponse =
  pr_from :: string
  pr_to :: string
  pr_promotion :: "string option"
  pr_reasoning :: string

record env =
  generateText :: "string \<Rightarrow> string \<Rightarrow> string \<Rightarrow> jserror + string"
  parseResponse :: "string \<Rightarrow> jserror + ParsedResponse"
  stringify :: "Move list \<Rightarrow> string"

record MoveResult =
  r_fen :: string
  r_move :: Move
  r_reasoning :: string

definition newError :: "string \<Rightarrow> jserror" where
  "newError msg = \<lparr> err_name = ''Error'', err_message = msg \<rparr>"

definition nl :: string where
  "nl = [CHR 0x0A]"

fun join :: "string \<Rightarrow> string list \<Rightarrow> string" where
  "join sep [] = []"
| "join sep [x] = x"
| "join sep (x # y # ys) = x @ sep @ join sep (y # ys)"

text \<open>\<^verbatim>\<open>moveHistory.slice(-7)\<close>: the last seven entries, or all of them if fewer.\<close>

definition recentMoves :: "ChessMove list \<Rightarrow> ChessMove list" where
  "recentMoves moveHistory = drop (length moveHistory - 7) moveHistory"

text \<open>A string or optional string in a JavaScript condition: absent and empty are falsy.\<close>

definition truthy :: "string option \<Rightarrow> bool" where
  "truthy v = (case v of None \<Rightarrow> False | Some s \<Rightarrow> s \<noteq> [])"

definition formatEntry :: "nat \<Rightarrow> nat \<Rightarrow> nat \<Rightarrow> ChessMove \<Rightarrow> string" where
  "formatEntry histLen recentLen index mv =
     show_nat (index div 2 + (histLen - recentLen) div 2 + 1) @ ''. ''
     @ (if h_player mv = You then ''Human'' else ''AI'') @ '': '' @ h_san mv
     @ (case h_reasoning mv of
          None \<Rightarrow> []
        | Some r \<Rightarrow> if r \<noteq> [] then '' ('' @ r @ '')'' else [])"

definition formattedHistory :: "ChessMove list \<Rightarrow> string" where
  "formattedHistory moveHistory =
     (let recent = recentMoves moveHistory
      in join nl (map (\<lambda>(index, mv). formatEntry (length moveHistory) (length recent) index mv)
                      (zip [0 ..< length recent] recent)))"

text \<open>The first bullet of the pattern commentary (source lines 82 to 102).\<close>

definition tendencyComment :: "ChessMove list \<Rightarrow> string" where
  "tendencyComment recent =
     (if length recent \<ge> 2 then
        ''The human player tends to '' @
        (if length (filter (\<lambda>m. h_player m = You) recent) \<ge> 2 then
           ''favor '' @
           (if length (filter (\<lambda>m. h_player m = You \<and> h_piece m = ''p'') recent) \<ge> 2
              then ''pawn moves''
            else if length (filter (\<lambda>m. h_player m = You \<and> h_piece m = ''n'') recent) \<ge> 2
              then ''knight development''
            else if length (filter (\<lambda>m. h_player m = You \<and> h_piece m = ''b'') recent) \<ge> 2
              then ''bishop development''
            else ''piece development'')
         else ''play aggressively'')
      else ''This is early in the game'')"

text \<open>The second bullet (source lines 103 to 109).\<close>

definition captureComment :: "ChessMove list \<Rightarrow> string" where
  "captureComment recent =
     (let n = length (filter (\<lambda>m. truthy (h_captured m)) recent)
      in if n > 0 then ''There have been '' @ show_nat n @ '' captures so far''
         else ''No pieces have been captured yet'')"

definition historyBlock :: "ChessMove list \<Rightarrow> string" where
  "historyBlock moveHistory =
     (let recent = recentMoves moveHistory
      in if length recent > 0 then
           ''Recent game history (last '' @ show_nat (length recent) @ '' moves):'' @ nl
           @ formattedHistory moveHistory @ nl
           @ nl
           @ ''Based on this game history, I can see the following patterns and strategies:'' @ nl
           @ ''- '' @ tendencyComment recent @ nl
           @ ''- '' @ captureComment recent @ nl
         else ''This is the beginning of the game.'')"

definition composePrompt ::
  "string \<Rightarrow> ChessMove list \<Rightarrow> string \<Rightarrow> bool \<Rightarrow> bool \<Rightarrow> bool \<Rightarrow> string" where
  "composePrompt fenStr moveHistory movesJson inChk checkmatePossible defensiveNeeded =
     ''You are an expert chess player with a 1800 ELO rating. You will analyze the current board position and choose the best move.'' @ nl
     @ nl
     @ ''The current board position in FEN notation is: '' @ fenStr @ nl
     @ ''          '' @ nl
     @ historyBlock moveHistory @ nl
     @ nl
     @ (if inChk then ''IMPORTANT: Your king is in check! You must respond to this threat.'' else []) @ nl
     @ (if checkmatePossible
        then ''IMPORTANT: There's a potential checkmate available. Look for it carefully.'' else []) @ nl
     @ (if defensiveNeeded then ''IMPORTANT: You need to play defensively to protect your king.'' else []) @ nl
     @ nl
     @ ''Here are all the legal moves you can make:'' @ nl
     @ movesJson @ nl
     @ nl
     @ ''Analyze the position and choose the best move. Consider:'' @ nl
     @ ''1. '' @ (if inChk then ''Getting out of check is your top priority!''
                 else ''The recent game history and opponent's strategy'') @ nl
     @ ''2. '' @ (if checkmatePossible then ''Look for checkmate opportunities''
                 else ''Piece development and center control'') @ nl
     @ ''3. '' @ (if defensiveNeeded then ''Defensive needs and king safety''
                 else ''King safety and tactical opportunities'') @ nl
     @ ''4. Potential threats and future plans'' @ nl
     @ nl
     @ ''Return your response in the following JSON format only:'' @ nl
     @ ''{'' @ nl
     @ ''  \"move\": {'' @ nl
     @ ''    \"from\": \"square1\",'' @ nl
     @ ''    \"to\": \"square2\",'' @ nl
     @ ''    \"promotion\": \"q\" // optional, only if this is a promotion move'' @ nl
     @ ''  },'' @ nl
     @ ''  \"reasoning\": \"Brief explanation of why you chose this move\"'' @ nl
     @ ''}''"

text \<open>
  The test both \<^verbatim>\<open>catch\<close> blocks apply to an error:
  \<^verbatim>\<open>error.message && (error.message.includes("API key") || ...)\<close>.
\<close>

definition isAuthError :: "jserror \<Rightarrow> bool" where
  "isAuthError error =
     (err_message error \<noteq> [] \<and>
      (str_includes (err_message error) ''API key'' \<or>
       str_includes (err_message error) ''authentication'' \<or>
       str_includes (err_message error) ''auth'' \<or>
       str_includes (err_message error) ''401'' \<or>
       str_includes (err_message error) ''403''))"

definition descrOf :: "Move \<Rightarrow> MoveDescr" where
  "descrOf m = \<lparr> d_from = m_from m, d_to = m_to m, d_promotion = m_promotion m \<rparr>"

text \<open>
  The body of the \<^verbatim>\<open>try\<close> block: the completion call, the parse, the move on the
  instance. \<open>Inl e\<close> is the error that reaches the \<^verbatim>\<open>catch\<close> block.
\<close>

definition tryModelMove ::
  "engine \<Rightarrow> env \<Rightarrow> string \<Rightarrow> string \<Rightarrow> string \<Rightarrow> string \<Rightarrow> jserror + MoveResult" where
  "tryModelMove E X fenStr apiKeyStr modelName prompt =
     (case generateText X apiKeyStr modelName prompt of
        Inl e \<Rightarrow> Inl e
      | Inr text \<Rightarrow>
          (case parseResponse X text of
             Inl e \<Rightarrow> Inl e
           | Inr parsedResponse \<Rightarrow>
               (case move E fenStr \<lparr> d_from = pr_from parsedResponse,
                                      d_to = pr_to parsedResponse,
                                      d_promotion = pr_promotion parsedResponse \<rparr> of
                  Inl e \<Rightarrow> Inl e
                | Inr (res, fen') \<Rightarrow>
                    Inr \<lparr> r_fen = fen', r_move = res,
                          r_reasoning = pr_reasoning parsedResponse \<rparr>)))"

text \<open>
  The \<^verbatim>\<open>catch\<close> block. \<open>u\<close> is the value \<^verbatim>\<open>Math.random()\<close> returns, a number with
  \<open>0 \<le> u < 1\<close>; the instance is still at the input FEN, since an error leaves it
  unmoved.
\<close>

definition catchBlock ::
  "engine \<Rightarrow> real \<Rightarrow> string \<Rightarrow> Move list \<Rightarrow> jserror \<Rightarrow> jserror + MoveResult" where
  "catchBlock E u fenStr legalMoves error =
     (if isAuthError error then
        Inl (newError ''Invalid or expired OpenAI API key. Please update your API key.'')
      else if length legalMoves > 0 then
        (let randomMove = legalMoves ! nat \<lfloor>u * real (length legalMoves)\<rfloor>
         in case move E fenStr (descrOf randomMove) of
              Inl e \<Rightarrow> Inl e
            | Inr (applied, fen') \<Rightarrow>
                Inr \<lparr> r_fen = fen', r_move = randomMove,
                      r_reasoning = ''Random move (AI generation failed)'' \<rparr>)
      else Inl (newError ''Failed to generate a move''))"

text \<open>
  The prompt of the request, from the values computed before the \<^verbatim>\<open>try\<close> block:
  the legal moves, \<^verbatim>\<open>inCheck\<close>, \<^verbatim>\<open>checkmatePossible\<close>, \<^verbatim>\<open>defensiveNeeded\<close>.
\<close>

definition requestPrompt :: "engine \<Rightarrow> env \<Rightarrow> string \<Rightarrow> ChessMove list \<Rightarrow> string" where
  "requestPrompt E X fenStr moveHistory =
     (let legalMoves = moves E fenStr;
          inChk = isCheck E fenStr;
          checkmatePossible = list_ex (\<lambda>m. str_includes (m_san m) ''#'') legalMoves;
          defensiveNeeded = inChk
      in composePrompt fenStr moveHistory (stringify X legalMoves)
           inChk checkmatePossible defensiveNeeded)"

definition generateMove ::
  "engine \<Rightarrow> env \<Rightarrow> real \<Rightarrow> string \<Rightarrow> ChessMove list \<Rightarrow> string \<Rightarrow> string
     \<Rightarrow> jserror + MoveResult" where
  "generateMove E X u fenStr moveHistory apiKeyStr modelName =
     (if apiKeyStr = [] then Inl (newError ''OpenAI API key is required'')
      else case load E fenStr of
        Some e \<Rightarrow> Inl e
      | None \<Rightarrow>
          (let legalMoves = moves E fenStr
           in if length legalMoves = 0 then Inl (newError ''No legal moves available'')
              else
                (case tryModelMove E X fenStr apiKeyStr modelName
                        (requestPrompt E X fenStr moveHistory) of
                   Inr r \<Rightarrow> Inr r
                 | Inl error \<Rightarrow> catchBlock E u fenStr legalMoves error)))"

section \<open>The board component: drop handler (components/chess-board.tsx)\<close>

text \<open>
  \<^verbatim>\<open>onDrop\<close> of \<^verbatim>\<open>ChessBoard\<close>. The component's instance \<^verbatim>\<open>game\<close> is built from the
  \<^verbatim>\<open>fen\<close> prop. The result is the boolean returned to the board widget and the
  arguments of the call of \<^verbatim>\<open>onMove\<close>, if it is made. A thrown error and a
  \<^verbatim>\<open>null\<close> result both return \<^verbatim>\<open>false\<close> before \<^verbatim>\<open>onMove\<close>.
\<close>

definition onDrop ::
  "engine \<Rightarrow> bool \<Rightarrow> string \<Rightarrow> string \<Rightarrow> string \<Rightarrow> bool \<times> (string \<times> Move) option" where
  "onDrop E isPlayerTurnProp game sourceSquare targetSquare =
     (if \<not> isPlayerTurnProp then (False, None)
      else case move E game \<lparr> d_from = sourceSquare, d_to = targetSquare,
                                d_promotion = Some ''q'' \<rparr> of
             Inl e \<Rightarrow> (False, None)
           | Inr (mv, fen') \<Rightarrow> (True, Some (fen', mv)))"

section \<open>The page component: state and transitions\<close>

record App =
  gameState :: GameState
  playerTime :: int
  aiTime :: int
  isThinking :: bool
  moveHistory :: "ChessMove list"
  chessRef :: string
  apiKey :: string
  isApiKeyModalOpen :: bool
  selectedModel :: string

definition startFen :: string where
  "startFen = ''rnbqkbnr/pppppppp/8/8/8/8/PPPPPPPP/RNBQKBNR w KQkq - 0 1''"

text \<open>The values of the \<^verbatim>\<open>useState\<close> and \<^verbatim>\<open>useRef\<close> initialisers.\<close>

definition initialApp :: App where
  "initialApp =
     \<lparr> gameState = \<lparr> fen = startFen, isPlayerTurn = True, gameStatus = Waiting,
                      result = None, resultReason = None, inCheck = False,
                      checkSquare = None \<rparr>,
       playerTime = 600, aiTime = 600, isThinking = False, moveHistory = [],
       chessRef = startFen, apiKey = [], isApiKeyModalOpen = False,
       selectedModel = ''gpt-4'' \<rparr>"

text \<open>
  \<^verbatim>\<open>startGame\<close>, with the API key its closure holds passed apart from the state it
  updates (they differ when \<^verbatim>\<open>handleApiKeySubmit\<close> calls it in the render in which
  the key is being set).
\<close>

definition startGameWith :: "string \<Rightarrow> App \<Rightarrow> App" where
  "startGameWith key a =
     (if key = [] then a\<lparr> isApiKeyModalOpen := True \<rparr>
      else a\<lparr> chessRef := startFen,
              gameState := \<lparr> fen = startFen, isPlayerTurn = True, gameStatus = Playing,
                             result = None, resultReason = None, inCheck = False,
                             checkSquare = None \<rparr>,
              playerTime := 600, aiTime := 600, moveHistory := [] \<rparr>)"

definition startGame :: "App \<Rightarrow> App" where
  "startGame a = startGameWith (apiKey a) a"

definition handleApiKeySubmit :: "string \<Rightarrow> string \<Rightarrow> App \<Rightarrow> App" where
  "handleApiKeySubmit key model a =
     (let a1 = a\<lparr> apiKey := key, selectedModel := model, isApiKeyModalOpen := False \<rparr>
      in if gameStatus (gameState a) = Waiting then startGameWith (apiKey a) a1 else a1)"

text \<open>
  \<^verbatim>\<open>handleMove\<close> is an async function: it runs to the \<^verbatim>\<open>await\<close>, resumes when
  \<^verbatim>\<open>generateMove\<close> settles, and its state update for the model's move runs in a
  timer callback 800 ms later. The three parts are three transitions; the request
  and the scheduled callback are the values handed from one to the next.
\<close>

record Request =
  q_fen :: string
  q_moveHistory :: "ChessMove list"
  q_apiKey :: string
  q_modelName :: string

record Scheduled =
  t_aiMove :: MoveResult
  t_status :: StatusUpdate

definition playerEntry :: "string \<Rightarrow> Move \<Rightarrow> ChessMove" where
  "playerEntry newFen mv =
     \<lparr> h_san = m_san mv, h_player = You, h_fen = newFen, h_piece = m_piece mv,
       h_from = m_from mv, h_to = m_to mv, h_captured = m_captured mv,
       h_check = str_includes (m_san mv) ''+'',
       h_checkmate = str_includes (m_san mv) ''#'',
       h_reasoning = None \<rparr>"

definition aiEntry :: "MoveResult \<Rightarrow> ChessMove" where
  "aiEntry aiMove =
     \<lparr> h_san = m_san (r_move aiMove), h_player = AI, h_fen = r_fen aiMove,
       h_piece = m_piece (r_move aiMove),
       h_from = m_from (r_move aiMove), h_to = m_to (r_move aiMove),
       h_captured = m_captured (r_move aiMove),
       h_check = str_includes (m_san (r_move aiMove)) ''+'',
       h_checkmate = str_includes (m_san (r_move aiMove)) ''#'',
       h_reasoning = Some (r_reasoning aiMove) \<rparr>"

text \<open>
  Up to the \<^verbatim>\<open>await\<close>. The history handed to \<^verbatim>\<open>generateMove\<close> is the variable
  \<^verbatim>\<open>moveHistory\<close> of the render the handler was created in;
  \<^verbatim>\<open>setMoveHistory\<close> does not change it. A FEN the instance refuses to load throws
  before any state is set.
\<close>

definition handleMove_start :: "engine \<Rightarrow> App \<Rightarrow> string \<Rightarrow> Move \<Rightarrow> App \<times> Request option" where
  "handleMove_start E a newFen mv =
     (case load E newFen of
        Some e \<Rightarrow> (a, None)
      | None \<Rightarrow>
          (let statusAfterPlayerMove = checkGameStatus E newFen;
               a1 = a\<lparr> chessRef := newFen,
                       gameState := spread ((gameState a)\<lparr> fen := newFen, isPlayerTurn := False \<rparr>)
                                      statusAfterPlayerMove,
                       moveHistory := moveHistory a @ [playerEntry newFen mv] \<rparr>
           in if u_gameStatus statusAfterPlayerMove = Ended then (a1, None)
              else (a1\<lparr> isThinking := True \<rparr>,
                    Some \<lparr> q_fen = newFen, q_moveHistory = moveHistory a,
                           q_apiKey = apiKey a, q_modelName = selectedModel a \<rparr>)))"

definition handleMove_catch :: "App \<Rightarrow> jserror \<Rightarrow> App" where
  "handleMove_catch a error =
     a\<lparr> isThinking := False,
        isApiKeyModalOpen := (if isAuthError error then True else isApiKeyModalOpen a) \<rparr>"

text \<open>After the \<^verbatim>\<open>await\<close>: the outcome of \<^verbatim>\<open>generateMove\<close> arrives.\<close>

definition handleMove_resume ::
  "engine \<Rightarrow> App \<Rightarrow> jserror + MoveResult \<Rightarrow> App \<times> Scheduled option" where
  "handleMove_resume E a outcome =
     (case outcome of
        Inl error \<Rightarrow> (handleMove_catch a error, None)
      | Inr aiMove \<Rightarrow>
          (case load E (r_fen aiMove) of
             Some e \<Rightarrow> (handleMove_catch a e, None)
           | None \<Rightarrow>
               (a\<lparr> chessRef := r_fen aiMove \<rparr>,
                Some \<lparr> t_aiMove = aiMove,
                       t_status = checkGameStatus E (r_fen aiMove) \<rparr>)))"

text \<open>The timer callback: the functional updates read the state at that time.\<close>

definition handleMove_timeout :: "App \<Rightarrow> Scheduled \<Rightarrow> App" where
  "handleMove_timeout a sch =
     a\<lparr> gameState := spread ((gameState a)\<lparr> fen := r_fen (t_aiMove sch), isPlayerTurn := True \<rparr>)
                         (t_status sch),
        moveHistory := moveHistory a @ [aiEntry (t_aiMove sch)],
        isThinking := False \<rparr>"

text \<open>
  One firing of the interval the timer effect installs. The effect installs an
  interval only while \<^verbatim>\<open>gameStatus\<close> is \<^verbatim>\<open>"playing"\<close>, for the side whose turn it is.
\<close>

definition tick :: "App \<Rightarrow> App" where
  "tick a =
     (if gameStatus (gameState a) = Playing then
        (if isPlayerTurn (gameState a) then
           (if playerTime a \<le> 0 then
              a\<lparr> gameState := (gameState a)\<lparr> gameStatus := Ended, result := Some R_ai,
                                              resultReason := Some Time \<rparr>,
                 playerTime := 0 \<rparr>
            else a\<lparr> playerTime := playerTime a - 1 \<rparr>)
         else
           (if aiTime a \<le> 0 then
              a\<lparr> gameState := (gameState a)\<lparr> gameStatus := Ended, result := Some R_player,
                                              resultReason := Some Time \<rparr>,
                 aiTime := 0 \<rparr>
            else a\<lparr> aiTime := aiTime a - 1 \<rparr>))
      else a)"

text \<open>
  A drop on the board of the page: the props the page passes to \<^verbatim>\<open>ChessBoard\<close>, and
  \<^verbatim>\<open>handleMove\<close> as its \<^verbatim>\<open>onMove\<close>.
\<close>

definition dropOnBoard ::
  "engine \<Rightarrow> App \<Rightarrow> string \<Rightarrow> string \<Rightarrow> bool \<times> App \<times> Request option" where
  "dropOnBoard E a sourceSquare targetSquare =
     (case onDrop E (isPlayerTurn (gameState a) \<and> gameStatus (gameState a) = Playing)
                  (fen (gameState a)) sourceSquare targetSquare of
        (accepted, None) \<Rightarrow> (accepted, a, None)
      | (accepted, Some (newFen, mv)) \<Rightarrow>
          (case handleMove_start E a newFen mv of (a', req) \<Rightarrow> (accepted, a', req)))"

text \<open>
  \<^verbatim>\<open>handleSubmit\<close> of the credential dialog (components/api-key-modal.tsx), with the
  page's \<^verbatim>\<open>onSubmit\<close> and \<^verbatim>\<open>onClose\<close>: an empty or blank key and a key that does not
  start with \<^verbatim>\<open>sk-\<close> only set the dialog's own error text.
\<close>

text \<open>
  The characters \<^verbatim>\<open>String.prototype.trim\<close> strips, among those a \<open>char\<close> can hold: tab,
  line feed, vertical tab, form feed, carriage return, space and the no-break space
  U+00A0.
\<close>

definition isSpace :: "char \<Rightarrow> bool" where
  "isSpace c =
     (c \<in> set [CHR '' '', CHR 0x09, CHR 0x0A, CHR 0x0B, CHR 0x0C, CHR 0x0D, CHR 0xA0])"

definition trim :: "string \<Rightarrow> string" where
  "trim s = rev (dropWhile isSpace (rev (dropWhile isSpace s)))"

definition handleSubmit :: "string \<Rightarrow> string \<Rightarrow> App \<Rightarrow> App" where
  "handleSubmit key model a =
     (if key = [] \<or> trim key = [] then a
      else if \<not> startsWith key ''sk-'' then a
      else (handleApiKeySubmit (trim key) model a)\<lparr> isApiKeyModalOpen := False \<rparr>)"

section \<open>Runs of the page\<close>

text \<open>
  What can happen to the page, one event at a time: the dialog submits a key, a start
  button is clicked, a piece is dropped, an outstanding call of \<^verbatim>\<open>generateMove\<close>
  settles (against some completion service and some value of \<^verbatim>\<open>Math.random()\<close>), a
  scheduled timer callback fires, the clock interval fires. The state of a run is the
  page state with the requests awaited and the callbacks scheduled.
\<close>

datatype event =
  SubmitKey string string
| ClickStart
| Drop string string
| Settle nat env real
| Fire nat
| Tick

type_synonym config = "App \<times> Request list \<times> Scheduled list"

definition optList :: "'a option \<Rightarrow> 'a list" where
  "optList v = (case v of None \<Rightarrow> [] | Some x \<Rightarrow> [x])"

definition dropNth :: "nat \<Rightarrow> 'a list \<Rightarrow> 'a list" where
  "dropNth i xs = take i xs @ drop (Suc i) xs"

fun step :: "engine \<Rightarrow> config \<Rightarrow> event \<Rightarrow> config" where
  "step E (a, rq, sc) (SubmitKey key model) = (handleSubmit key model a, rq, sc)"
| "step E (a, rq, sc) ClickStart = (startGame a, rq, sc)"
| "step E (a, rq, sc) (Drop sourceSquare targetSquare) =
     (case dropOnBoard E a sourceSquare targetSquare of
        (accepted, a', req) \<Rightarrow> (a', rq @ optList req, sc))"
| "step E (a, rq, sc) (Settle i X u) =
     (if i < length rq \<and> 0 \<le> u \<and> u < 1 then
        (case handleMove_resume E a
                (generateMove E X u (q_fen (rq ! i)) (q_moveHistory (rq ! i))
                   (q_apiKey (rq ! i)) (q_modelName (rq ! i))) of
           (a', sch) \<Rightarrow> (a', dropNth i rq, sc @ optList sch))
      else (a, rq, sc))"
| "step E (a, rq, sc) (Fire i) =
     (if i < length sc then (handleMove_timeout a (sc ! i), rq, dropNth i sc)
      else (a, rq, sc))"
| "step E (a, rq, sc) Tick = (tick a, rq, sc)"

definition run :: "engine \<Rightarrow> event list \<Rightarrow> config" where
  "run E evs = foldl (step E) (initialApp, [], []) evs"

definition app :: "config \<Rightarrow> App" where
  "app c = fst c"


section \<open>What the claims speak of\<close>

text \<open>
  The contract of the rules library the claims rely on: a descriptor is accepted only
  as one of the listed legal moves, on the descriptor's squares; every listed legal
  move is accepted; a side in check has its king on the board.
\<close>

definition move_sound :: "engine \<Rightarrow> bool" where
  "move_sound E \<longleftrightarrow>
     (\<forall>f d m f'. move E f d = Inr (m, f') \<longrightarrow>
        m \<in> set (moves E f) \<and> m_from m = d_from d \<and> m_to m = d_to d)"






text \<open>
  The human plays White and the model Black: \<^verbatim>\<open>startGame\<close> gives the human the first
  move of the standard position, and the sides alternate from there.
\<close>

fun opposite :: "color \<Rightarrow> color" where
  "opposite White = Black"
| "opposite Black = White"

fun sideOf :: "color \<Rightarrow> GameResult" where
  "sideOf White = R_player"
| "sideOf Black = R_ai"

text \<open>
  The tendency label as the specification words it: the piece kinds of the human's
  moves in the window are counted, a kind counts from two occurrences on, and the
  kinds are tried in the order pawn, knight, bishop before the generic label.
\<close>

definition humanKinds :: "ChessMove list \<Rightarrow> string list" where
  "humanKinds recent = map h_piece (filter (\<lambda>m. h_player m = You) recent)"

definition kindLabels :: "(string \<times> string) list" where
  "kindLabels = [(''p'', ''pawn moves''), (''n'', ''knight development''),
                 (''b'', ''bishop development'')]"

definition favouredLabel :: "string list \<Rightarrow> string" where
  "favouredLabel kinds =
     (case find (\<lambda>(k, label). count_list kinds k \<ge> 2) kindLabels of
        Some (k, label) \<Rightarrow> label
      | None \<Rightarrow> ''piece development'')"

section \<open>A small rules engine and completion services, for concrete runs\<close>

text \<open>
  A rules engine that knows the positions of two short games: 1. f3 e5 2. g4 Qh4 mate
  (the model, Black, mates) and a position in which 3. Qh5 mates (the human, White,
  mates). It lists a few legal moves of each position, refuses every other FEN, reads
  the side to move and the board off the FEN, and matches a descriptor on its two
  squares.
\<close>

definition fenE4 :: string where
  "fenE4 = ''rnbqkbnr/pppppppp/8/8/4P3/8/PPPP1PPP/RNBQKBNR b KQkq - 0 1''"

definition fenF3 :: string where
  "fenF3 = ''rnbqkbnr/pppppppp/8/8/8/5P2/PPPPP1PP/RNBQKBNR b KQkq - 0 1''"

definition fenF3e5 :: string where
  "fenF3e5 = ''rnbqkbnr/pppp1ppp/8/4p3/8/5P2/PPPPP1PP/RNBQKBNR w KQkq - 0 2''"

definition fenF3d5 :: string where
  "fenF3d5 = ''rnbqkbnr/ppp1pppp/8/3p4/8/5P2/PPPPP1PP/RNBQKBNR w KQkq - 0 2''"

definition fenG4 :: string where
  "fenG4 = ''rnbqkbnr/pppp1ppp/8/4p3/6P1/5P2/PPPPP2P/RNBQKBNR b KQkq - 0 2''"

definition fenFoolsMate :: string where
  "fenFoolsMate = ''rnb1kbnr/pppp1ppp/8/4p3/6Pq/5P2/PPPPP2P/RNBQKBNR w KQkq - 1 3''"

definition fenBeforeQh5 :: string where
  "fenBeforeQh5 = ''rnbqkbnr/ppppp2p/5p2/6p1/3PP3/8/PPP2PPP/RNBQKBNR w KQkq - 0 3''"

definition fenQh5Mate :: string where
  "fenQh5Mate = ''rnbqkbnr/ppppp2p/5p2/6pQ/3PP3/8/PPP2PPP/RNB1KBNR b KQkq - 1 3''"

definition mkMove :: "string \<Rightarrow> string \<Rightarrow> string \<Rightarrow> string \<Rightarrow> Move" where
  "mkMove f t pc sn =
     \<lparr> m_from = f, m_to = t, m_promotion = None, m_piece = pc, m_captured = None,
       m_san = sn \<rparr>"

definition book :: "(string \<times> (Move \<times> string) list) list" where
  "book =
     [(startFen, [(mkMove ''e2'' ''e4'' ''p'' ''e4'', fenE4),
                  (mkMove ''f2'' ''f3'' ''p'' ''f3'', fenF3)]),
      (fenE4, []),
      (fenF3, [(mkMove ''e7'' ''e5'' ''p'' ''e5'', fenF3e5),
               (mkMove ''d7'' ''d5'' ''p'' ''d5'', fenF3d5)]),
      (fenF3e5, [(mkMove ''g2'' ''g4'' ''p'' ''g4'', fenG4)]),
      (fenF3d5, []),
      (fenG4, [(mkMove ''d8'' ''h4'' ''q'' ''Qh4#'', fenFoolsMate)]),
      (fenFoolsMate, []),
      (fenBeforeQh5, [(mkMove ''d1'' ''h5'' ''q'' ''Qh5#'', fenQh5Mate)]),
      (fenQh5Mate, [])]"

definition bookLines :: "string \<Rightarrow> (Move \<times> string) list" where
  "bookLines f = (case map_of book f of None \<Rightarrow> [] | Some l \<Rightarrow> l)"

definition bookMove :: "string \<Rightarrow> MoveDescr \<Rightarrow> jserror + (Move \<times> string)" where
  "bookMove f d =
     (case find (\<lambda>(m, f'). m_from m = d_from d \<and> m_to m = d_to d) (bookLines f) of
        None \<Rightarrow> Inl (newError (''Invalid move: '' @ d_from d @ d_to d))
      | Some r \<Rightarrow> Inr r)"

fun fenTurn :: "string \<Rightarrow> color" where
  "fenTurn [] = White"
| "fenTurn (c # cs) =
     (if c = CHR '' '' then (case cs of [] \<Rightarrow> White | t # _ \<Rightarrow> if t = CHR ''b'' then Black else White)
      else fenTurn cs)"

definition pieceOfChar :: "char \<Rightarrow> Piece" where
  "pieceOfChar c =
     (if of_char c < (97::nat)
      then \<lparr> p_type = [char_of (of_char c + (32::nat))], p_color = White \<rparr>
      else \<lparr> p_type = [c], p_color = Black \<rparr>)"

fun fenRows :: "string \<Rightarrow> Piece option list \<Rightarrow> Piece option list list" where
  "fenRows [] row = [row]"
| "fenRows (c # cs) row =
     (if c = CHR '' '' then [row]
      else if c = CHR ''/'' then row # fenRows cs []
      else if of_char c \<ge> (49::nat) \<and> of_char c \<le> (56::nat)
        then fenRows cs (row @ replicate (of_char c - (48::nat)) None)
      else fenRows cs (row @ [Some (pieceOfChar c)]))"

definition bookEngine :: engine where
  "bookEngine =
     \<lparr> load = (\<lambda>f. if map_of book f = None then Some (newError (''Invalid FEN: '' @ f)) else None),
       moves = (\<lambda>f. map fst (bookLines f)),
       move = bookMove,
       isCheck = (\<lambda>f. f = fenFoolsMate \<or> f = fenQh5Mate),
       isCheckmate = (\<lambda>f. f = fenFoolsMate \<or> f = fenQh5Mate),
       isStalemate = (\<lambda>f. False),
       isInsufficientMaterial = (\<lambda>f. False),
       isThreefoldRepetition = (\<lambda>f. False),
       isDraw = (\<lambda>f. False),
       turn = fenTurn,
       board = (\<lambda>f. fenRows f []) \<rparr>"

text \<open>
  Completion services: one that answers with a given parsed move, one whose call
  fails with a given error.
\<close>

definition answering :: "ParsedResponse \<Rightarrow> env" where
  "answering pr =
     \<lparr> generateText = (\<lambda>k m p. Inr ''{}''),
       parseResponse = (\<lambda>t. Inr pr),
       stringify = (\<lambda>ms. ''[]'') \<rparr>"

definition failing :: "jserror \<Rightarrow> env" where
  "failing e =
     \<lparr> generateText = (\<lambda>k m p. Inl e),
       parseResponse = (\<lambda>t. Inl e),
       stringify = (\<lambda>ms. ''[]'') \<rparr>"

text \<open>
  Concrete runs: the human starts a game and plays 1. f3; the model's clock runs down
  while its request is outstanding, and the request settles afterwards; or the model
  answers in time and the game goes on to 2. g4 Qh4.
\<close>

definition e7e5 :: ParsedResponse where
  "e7e5 = \<lparr> pr_from = ''e7'', pr_to = ''e5'', pr_promotion = None,
            pr_reasoning = ''Takes the centre.'' \<rparr>"

definition d8h4 :: ParsedResponse where
  "d8h4 = \<lparr> pr_from = ''d8'', pr_to = ''h4'', pr_promotion = None,
            pr_reasoning = ''Mate on h4.'' \<rparr>"


definition evsStart :: "event list" where
  "evsStart = [ClickStart, SubmitKey ''sk-test'' ''gpt-4o'', ClickStart]"

definition evsOpening :: "event list" where
  "evsOpening = evsStart @ [Drop ''f2'' ''f3'']"

definition evsZero :: "event list" where
  "evsZero = evsOpening @ replicate 600 Tick"

definition evsFlagged :: "event list" where
  "evsFlagged = evsOpening @ replicate 601 Tick"

definition evsLate :: "event list" where
  "evsLate = evsFlagged @ [Settle 0 (answering e7e5) 0, Fire 0]"

definition evsReplied :: "event list" where
  "evsReplied = evsOpening @ [Settle 0 (answering e7e5) 0, Fire 0]"

definition evsFools :: "event list" where
  "evsFools = evsOpening @ [Settle 0 (answering e7e5) 0, Fire 0, Drop ''g2'' ''g4'',
                            Settle 0 (answering d8h4) 0]"


text \<open>A history of four moves of the human: two by bishops and two by knights.\<close>

definition histMinor :: "ChessMove list" where
  "histMinor =
     [playerEntry [] (mkMove ''f1'' ''c4'' ''b'' ''Bc4''),
      playerEntry [] (mkMove ''g1'' ''f3'' ''n'' ''Nf3''),
      playerEntry [] (mkMove ''c4'' ''b5'' ''b'' ''Bb5''),
      playerEntry [] (mkMove ''b1'' ''c3'' ''n'' ''Nc3'')]"

text \<open>A game in progress that has reached the position before 3. Qh5 mate.\<close>

definition appBeforeQh5 :: App where
  "appBeforeQh5 =
     (app (run bookEngine evsStart))
       \<lparr> gameState := (gameState (app (run bookEngine evsStart)))\<lparr> fen := fenBeforeQh5 \<rparr>,
         chessRef := fenBeforeQh5 \<rparr>"

section \<open>Facts about the model shared by the claims\<close>

lemma random_index_in_range:
  assumes "0 \<le> u" and "u < 1" and "0 < n"
  shows "nat \<lfloor>u * real n\<rfloor> < n"
proof -
  have "u * real n < real n"
    using assms by simp
  then have "\<lfloor>u * real n\<rfloor> < int n"
    by (simp add: floor_less_iff)
  then show ?thesis
    using assms(3) by linarith
qed

lemma tryModelMove_sound:
  assumes "move_sound E" and "tryModelMove E X f key model p = Inr r"
  shows "r_move r \<in> set (moves E f)"
proof -
  from assms(2) obtain d f' where "move E f d = Inr (r_move r, f')"
    by (auto simp: tryModelMove_def split: sum.splits prod.splits)
  with assms(1) show ?thesis
    unfolding move_sound_def by blast
qed

lemma catchBlock_sound:
  assumes "0 \<le> u" and "u < 1" and "catchBlock E u f (moves E f) e = Inr r"
  shows "r_move r \<in> set (moves E f)"
proof -
  from assms(3) have len: "0 < length (moves E f)"
    by (auto simp: catchBlock_def split: if_splits)
  have idx: "nat \<lfloor>u * real (length (moves E f))\<rfloor> < length (moves E f)"
    using random_index_in_range [OF assms(1,2) len] .
  from assms(3) len have "r_move r = moves E f ! nat \<lfloor>u * real (length (moves E f))\<rfloor>"
    by (auto simp: catchBlock_def Let_def split: if_splits sum.splits prod.splits)
  with idx show ?thesis by simp
qed

lemma find_Some_holds:
  "find P xs = Some x \<Longrightarrow> P x \<and> x \<in> set xs"
  by (induction xs) (auto split: if_splits)

lemma bookEngine_move_sound: "move_sound bookEngine"
proof -
  have "m \<in> fst ` set (bookLines f) \<and> m_from m = d_from d \<and> m_to m = d_to d"
    if "bookMove f d = Inr (m, f')" for f d m f'
  proof -
    from that have "find (\<lambda>(m, f'). m_from m = d_from d \<and> m_to m = d_to d) (bookLines f) = Some (m, f')"
      by (auto simp: bookMove_def split: option.splits)
    from find_Some_holds [OF this] show ?thesis
      by force
  qed
  then show ?thesis
    by (simp add: move_sound_def bookEngine_def)
qed

lemma count_human_kind:
  "count_list (humanKinds recent) k
     = length (filter (\<lambda>m. h_player m = You \<and> h_piece m = k) recent)"
  by (induction recent) (auto simp: humanKinds_def)

lemma length_humanKinds:
  "length (humanKinds recent) = length (filter (\<lambda>m. h_player m = You) recent)"
  by (simp add: humanKinds_def)

lemma favouredLabel_unfold:
  "favouredLabel kinds =
     (if count_list kinds ''p'' \<ge> 2 then ''pawn moves''
      else if count_list kinds ''n'' \<ge> 2 then ''knight development''
      else if count_list kinds ''b'' \<ge> 2 then ''bishop development''
      else ''piece development'')"
  by (simp add: favouredLabel_def kindLabels_def)























lemma startsWith_append: "startsWith (xs @ ys) xs"
  by (induction xs) simp_all


section \<open>The claims\<close>

text \<open>
  C1. Every move \<^verbatim>\<open>generateMove\<close> returns, from the validated completion or from the
  fallback, is one of the legal moves computed from the input FEN before the request
  was composed. The rules library is assumed to accept a descriptor only as one of
  the legal moves it lists, and \<^verbatim>\<open>Math.random()\<close> to lie in \<open>[0, 1)\<close>.
\<close>

theorem generateMove_returns_legal_move:
  assumes "move_sound E" and "0 \<le> u" and "u < 1"
      and "generateMove E X u fenStr hist key model = Inr r"
  shows "r_move r \<in> set (moves E fenStr)"
proof -
  from assms(4) consider
      (validated) "tryModelMove E X fenStr key model (requestPrompt E X fenStr hist) = Inr r"
    | (fallback) e where "catchBlock E u fenStr (moves E fenStr) e = Inr r"
    by (auto simp: generateMove_def Let_def split: if_splits option.splits sum.splits)
  then show ?thesis
  proof cases
    case validated
    then show ?thesis using assms(1) by (rule tryModelMove_sound [rotated])
  next
    case fallback
    then show ?thesis using assms(2,3) by (auto intro: catchBlock_sound)
  qed
qed

theorem generateMove_returns_legal_move_witness:
  "move_sound bookEngine \<and> (0::real) \<le> 1 / 2 \<and> (1 / 2 :: real) < 1
   \<and> generateMove bookEngine (answering e7e5) (1 / 2) fenF3 [] ''sk-test'' ''gpt-4o''
       = Inr \<lparr> r_fen = fenF3e5, r_move = mkMove ''e7'' ''e5'' ''p'' ''e5'',
               r_reasoning = ''Takes the centre.'' \<rparr>
   \<and> mkMove ''e7'' ''e5'' ''p'' ''e5'' \<in> set (moves bookEngine fenF3)
   \<and> generateMove bookEngine (failing (newError ''timeout'')) (1 / 2) fenF3 [] ''sk-test'' ''gpt-4o''
       = Inr \<lparr> r_fen = fenF3d5, r_move = mkMove ''d7'' ''d5'' ''p'' ''d5'',
               r_reasoning = ''Random move (AI generation failed)'' \<rparr>
   \<and> mkMove ''d7'' ''d5'' ''p'' ''d5'' \<in> set (moves bookEngine fenF3)"
proof -
  have h1: "(0::real) \<le> 1 / 2" and h2: "(1 / 2 :: real) < 1" by simp_all
  have g1: "generateMove bookEngine (answering e7e5) (1 / 2) fenF3 [] ''sk-test'' ''gpt-4o''
       = Inr \<lparr> r_fen = fenF3e5, r_move = mkMove ''e7'' ''e5'' ''p'' ''e5'',
               r_reasoning = ''Takes the centre.'' \<rparr>"
    by code_simp
  have g2: "generateMove bookEngine (failing (newError ''timeout'')) (1 / 2) fenF3 [] ''sk-test'' ''gpt-4o''
       = Inr \<lparr> r_fen = fenF3d5, r_move = mkMove ''d7'' ''d5'' ''p'' ''d5'',
               r_reasoning = ''Random move (AI generation failed)'' \<rparr>"
    by code_simp
  show ?thesis
    using generateMove_returns_legal_move [OF bookEngine_move_sound h1 h2 g1]
          generateMove_returns_legal_move [OF bookEngine_move_sound h1 h2 g2]
          bookEngine_move_sound h1 h2 g1 g2
    by simp
qed

text \<open>
  C10, as stated: for every FEN whose legal-move set is empty, \<^verbatim>\<open>generateMove\<close> throws
  "No legal moves available". It does not when the API key is empty: the key is tested
  first, and the error is then "OpenAI API key is required".
\<close>

theorem terminal_position_counterexample:
  "moves bookEngine fenFoolsMate = []
   \<and> generateMove bookEngine (answering e7e5) 0 fenFoolsMate [] [] ''gpt-4o''
       = Inl (newError ''OpenAI API key is required'')
   \<and> generateMove bookEngine (answering e7e5) 0 fenFoolsMate [] [] ''gpt-4o''
       \<noteq> Inl (newError ''No legal moves available'')"
  by code_simp

text \<open>
  C10, amended: for a FEN whose legal-move set is empty, \<^verbatim>\<open>generateMove\<close> never returns
  a result, whatever the completion service and the random value are (neither is
  reached); with a non-empty API key and a FEN the library loads, the error is
  "No legal moves available"; with an empty API key it is "OpenAI API key is required".
\<close>

theorem terminal_position_throws:
  assumes "moves E f = []"
  shows "(\<exists>e. generateMove E X u f hist key model = Inl e)
         \<and> (key \<noteq> [] \<and> load E f = None \<longrightarrow>
              generateMove E X u f hist key model = Inl (newError ''No legal moves available''))
         \<and> (key = [] \<longrightarrow>
              generateMove E X u f hist key model = Inl (newError ''OpenAI API key is required''))"
  using assms by (auto simp: generateMove_def split: option.splits)

theorem terminal_position_throws_witness:
  "moves bookEngine fenFoolsMate = []
   \<and> generateMove bookEngine (answering e7e5) 0 fenFoolsMate [] ''sk-test'' ''gpt-4o''
       = Inl (newError ''No legal moves available'')
   \<and> generateMove bookEngine (answering e7e5) 0 fenFoolsMate [] [] ''gpt-4o''
       = Inl (newError ''OpenAI API key is required'')"
proof -
  have h: "moves bookEngine fenFoolsMate = []" by code_simp
  have l: "load bookEngine fenFoolsMate = None" by code_simp
  show ?thesis
    using terminal_position_throws [OF h, of "answering e7e5" 0 "[]" "''sk-test''" "''gpt-4o''"]
          terminal_position_throws [OF h, of "answering e7e5" 0 "[]" "[]" "''gpt-4o''"] h l
    by simp
qed

text \<open>
  C5. On a checkmate position \<^verbatim>\<open>checkGameStatus\<close> reports \<open>Ended\<close>, reason \<open>Checkmate\<close>,
  and as result the side whose colour is not to move, that is the side that has just
  moved, never the side to move. After the human's mating move (Black to move) the
  state \<^verbatim>\<open>handleMove\<close> sets has result \<open>R_player\<close>; after the model's mating move (White
  to move) the state the timer callback sets has result \<open>R_ai\<close>.
\<close>

theorem checkmate_result_is_side_that_moved:
  assumes "isCheckmate E pos"
  shows "u_gameStatus (checkGameStatus E pos) = Ended
         \<and> u_resultReason (checkGameStatus E pos) = Some (Some Checkmate)
         \<and> u_result (checkGameStatus E pos) = Some (Some (sideOf (opposite (turn E pos))))
         \<and> u_result (checkGameStatus E pos) \<noteq> Some (Some (sideOf (turn E pos)))
         \<and> (load E pos = None \<and> turn E pos = Black \<longrightarrow>
              gameStatus (gameState (fst (handleMove_start E a pos mv))) = Ended
              \<and> resultReason (gameState (fst (handleMove_start E a pos mv))) = Some Checkmate
              \<and> result (gameState (fst (handleMove_start E a pos mv))) = Some R_player)
         \<and> (turn E pos = White \<and> t_status sch = checkGameStatus E pos \<longrightarrow>
              gameStatus (gameState (handleMove_timeout a sch)) = Ended
              \<and> resultReason (gameState (handleMove_timeout a sch)) = Some Checkmate
              \<and> result (gameState (handleMove_timeout a sch)) = Some R_ai)"
proof -
  have st: "checkGameStatus E pos =
      \<lparr> u_gameStatus = Ended,
        u_result = Some (Some (if turn E pos = White then R_ai else R_player)),
        u_resultReason = Some (Some Checkmate), u_inCheck = True,
        u_checkSquare = findKingSquare E pos (turn E pos) \<rparr>"
    using assms by (simp add: checkGameStatus_def)
  have human: "gameStatus (gameState (fst (handleMove_start E a pos mv))) = Ended
      \<and> resultReason (gameState (fst (handleMove_start E a pos mv))) = Some Checkmate
      \<and> result (gameState (fst (handleMove_start E a pos mv))) = Some R_player"
    if "load E pos = None" "turn E pos = Black"
    using that by (simp add: handleMove_start_def st spread_def)
  have model: "gameStatus (gameState (handleMove_timeout a sch)) = Ended
      \<and> resultReason (gameState (handleMove_timeout a sch)) = Some Checkmate
      \<and> result (gameState (handleMove_timeout a sch)) = Some R_ai"
    if "turn E pos = White" "t_status sch = checkGameStatus E pos"
    using that by (simp add: handleMove_timeout_def st spread_def)
  have "u_result (checkGameStatus E pos) = Some (Some (sideOf (opposite (turn E pos))))"
    by (cases "turn E pos") (simp_all add: st)
  moreover have "u_result (checkGameStatus E pos) \<noteq> Some (Some (sideOf (turn E pos)))"
    by (cases "turn E pos") (simp_all add: st)
  ultimately show ?thesis
    using human model by (simp add: st)
qed

theorem checkmate_result_is_side_that_moved_witness:
  "isCheckmate bookEngine fenQh5Mate \<and> load bookEngine fenQh5Mate = None
   \<and> turn bookEngine fenQh5Mate = Black
   \<and> result (gameState (fst (handleMove_start bookEngine appBeforeQh5 fenQh5Mate
                                 (mkMove ''d1'' ''h5'' ''q'' ''Qh5#'')))) = Some R_player
   \<and> isCheckmate bookEngine fenFoolsMate \<and> turn bookEngine fenFoolsMate = White
   \<and> t_status (hd (snd (snd (run bookEngine evsFools)))) = checkGameStatus bookEngine fenFoolsMate
   \<and> result (gameState (handleMove_timeout (app (run bookEngine evsFools))
                            (hd (snd (snd (run bookEngine evsFools)))))) = Some R_ai
   \<and> u_result (checkGameStatus bookEngine fenFoolsMate) = Some (Some R_ai)"
proof -
  have m1: "isCheckmate bookEngine fenQh5Mate" by code_simp
  have l1: "load bookEngine fenQh5Mate = None" by code_simp
  have t1: "turn bookEngine fenQh5Mate = Black" by code_simp
  have m2: "isCheckmate bookEngine fenFoolsMate" by code_simp
  have t2: "turn bookEngine fenFoolsMate = White" by code_simp
  have s2: "t_status (hd (snd (snd (run bookEngine evsFools)))) = checkGameStatus bookEngine fenFoolsMate"
    by code_simp
  show ?thesis
    using checkmate_result_is_side_that_moved
            [OF m1, where a = appBeforeQh5 and mv = "mkMove ''d1'' ''h5'' ''q'' ''Qh5#''"]
          checkmate_result_is_side_that_moved
            [OF m2, where sch = "hd (snd (snd (run bookEngine evsFools)))"
                      and a = "app (run bookEngine evsFools)"]
          m1 l1 t1 m2 t2 s2
    by simp
qed

text \<open>
  C4, as stated: the state never remains playing with a zero counter. After the 600th
  tick of the model's clock the counter is 0 and the game is still being played.
\<close>

theorem clock_zero_counterexample:
  "gameStatus (gameState (app (run bookEngine evsZero))) = Playing
   \<and> \<not> isPlayerTurn (gameState (app (run bookEngine evsZero)))
   \<and> aiTime (app (run bookEngine evsZero)) = 0
   \<and> aiTime (app (run bookEngine (butlast evsZero))) = 1"
  by code_simp

text \<open>
  C4, amended: while the game is being played, a tick that finds the running side's
  counter at zero (or below) ends the game, with the other side as result and \<open>Time\<close>
  as reason, and leaves the counter at 0; a tick that finds the counter positive takes
  one off it and changes nothing else. The tick that brings the counter to 0 therefore
  leaves the game playing, and the next tick ends it.
\<close>

theorem tick_ends_game_at_zero:
  assumes "gameStatus (gameState a) = Playing"
  shows "(isPlayerTurn (gameState a) \<and> playerTime a \<le> 0 \<longrightarrow>
            tick a = a\<lparr> gameState := (gameState a)\<lparr> gameStatus := Ended, result := Some R_ai,
                                                      resultReason := Some Time \<rparr>,
                         playerTime := 0 \<rparr>)
       \<and> (isPlayerTurn (gameState a) \<and> 0 < playerTime a \<longrightarrow>
            tick a = a\<lparr> playerTime := playerTime a - 1 \<rparr>)
       \<and> (\<not> isPlayerTurn (gameState a) \<and> aiTime a \<le> 0 \<longrightarrow>
            tick a = a\<lparr> gameState := (gameState a)\<lparr> gameStatus := Ended, result := Some R_player,
                                                      resultReason := Some Time \<rparr>,
                         aiTime := 0 \<rparr>)
       \<and> (\<not> isPlayerTurn (gameState a) \<and> 0 < aiTime a \<longrightarrow>
            tick a = a\<lparr> aiTime := aiTime a - 1 \<rparr>)"
  using assms by (simp add: tick_def)

theorem tick_ends_game_at_zero_witness:
  "gameStatus (gameState (app (run bookEngine evsZero))) = Playing
   \<and> \<not> isPlayerTurn (gameState (app (run bookEngine evsZero)))
   \<and> aiTime (app (run bookEngine evsZero)) \<le> 0
   \<and> gameStatus (gameState (tick (app (run bookEngine evsZero)))) = Ended
   \<and> result (gameState (tick (app (run bookEngine evsZero)))) = Some R_player
   \<and> resultReason (gameState (tick (app (run bookEngine evsZero)))) = Some Time
   \<and> aiTime (tick (app (run bookEngine evsZero))) = 0
   \<and> gameStatus (gameState (app (run bookEngine evsOpening))) = Playing
   \<and> \<not> isPlayerTurn (gameState (app (run bookEngine evsOpening)))
   \<and> 0 < aiTime (app (run bookEngine evsOpening))
   \<and> tick (app (run bookEngine evsOpening))
       = (app (run bookEngine evsOpening))\<lparr> aiTime := 599 \<rparr>"
proof -
  have p: "gameStatus (gameState (app (run bookEngine evsZero))) = Playing" by code_simp
  have n: "\<not> isPlayerTurn (gameState (app (run bookEngine evsZero)))" by code_simp
  have z: "aiTime (app (run bookEngine evsZero)) = 0" by code_simp
  have p': "gameStatus (gameState (app (run bookEngine evsOpening))) = Playing" by code_simp
  have n': "\<not> isPlayerTurn (gameState (app (run bookEngine evsOpening)))" by code_simp
  have z': "aiTime (app (run bookEngine evsOpening)) = 600" by code_simp
  show ?thesis
    using tick_ends_game_at_zero [OF p] tick_ends_game_at_zero [OF p'] p n z p' n' z'
    by simp
qed

text \<open>
  C7. A drop whose two squares belong to no legal move of the current position returns
  \<^verbatim>\<open>false\<close> without calling \<^verbatim>\<open>onMove\<close>: the page state, with its FEN, turn, status and
  history, and the requests awaited and callbacks scheduled stay as they are. The rules
  library is assumed to accept a descriptor only as a listed legal move on the
  descriptor's squares.
\<close>

theorem illegal_drop_is_rejected:
  assumes "move_sound E"
      and "\<forall>m \<in> set (moves E (fen (gameState a))).
             \<not> (m_from m = sourceSquare \<and> m_to m = targetSquare)"
  shows "onDrop E (isPlayerTurn (gameState a) \<and> gameStatus (gameState a) = Playing)
           (fen (gameState a)) sourceSquare targetSquare = (False, None)
       \<and> dropOnBoard E a sourceSquare targetSquare = (False, a, None)
       \<and> step E (a, rq, sc) (Drop sourceSquare targetSquare) = (a, rq, sc)"
proof -
  have rejected: "\<exists>e. move E (fen (gameState a))
                    \<lparr> d_from = sourceSquare, d_to = targetSquare, d_promotion = Some ''q'' \<rparr> = Inl e"
  proof (cases "move E (fen (gameState a))
                    \<lparr> d_from = sourceSquare, d_to = targetSquare, d_promotion = Some ''q'' \<rparr>")
    case (Inl e)
    then show ?thesis by blast
  next
    case (Inr r)
    obtain m f' where "r = (m, f')" by (cases r)
    with Inr assms(1) have "m \<in> set (moves E (fen (gameState a)))
        \<and> m_from m = sourceSquare \<and> m_to m = targetSquare"
      unfolding move_sound_def by fastforce
    with assms(2) show ?thesis by blast
  qed
  then have drop: "onDrop E (isPlayerTurn (gameState a) \<and> gameStatus (gameState a) = Playing)
           (fen (gameState a)) sourceSquare targetSquare = (False, None)"
    by (auto simp: onDrop_def)
  then show ?thesis
    by (simp add: dropOnBoard_def optList_def)
qed

theorem illegal_drop_is_rejected_witness:
  "move_sound bookEngine
   \<and> fen (gameState (app (run bookEngine evsStart))) = startFen
   \<and> map (\<lambda>m. (m_from m, m_to m)) (moves bookEngine startFen)
       = [(''e2'', ''e4''), (''f2'', ''f3'')]
   \<and> dropOnBoard bookEngine (app (run bookEngine evsStart)) ''e2'' ''e5''
       = (False, app (run bookEngine evsStart), None)
   \<and> run bookEngine (evsStart @ [Drop ''e2'' ''e5'']) = run bookEngine evsStart"
proof -
  have f: "fen (gameState (app (run bookEngine evsStart))) = startFen" by code_simp
  have l: "map (\<lambda>m. (m_from m, m_to m)) (moves bookEngine startFen)
             = [(''e2'', ''e4''), (''f2'', ''f3'')]"
    by code_simp
  have "\<forall>m \<in> set (moves bookEngine startFen). \<not> (m_from m = ''e2'' \<and> m_to m = ''e5'')"
    by code_simp
  then have h: "\<forall>m \<in> set (moves bookEngine (fen (gameState (app (run bookEngine evsStart))))).
                  \<not> (m_from m = ''e2'' \<and> m_to m = ''e5'')"
    by (simp only: f)
  have c: "run bookEngine evsStart = (app (run bookEngine evsStart), [], [])" by code_simp
  have r: "run bookEngine (evsStart @ [Drop ''e2'' ''e5''])
             = step bookEngine (run bookEngine evsStart) (Drop ''e2'' ''e5'')"
    by (simp add: run_def)
  from illegal_drop_is_rejected [OF bookEngine_move_sound h, of "[]" "[]"]
  have "dropOnBoard bookEngine (app (run bookEngine evsStart)) ''e2'' ''e5''
          = (False, app (run bookEngine evsStart), None)"
    and "step bookEngine (app (run bookEngine evsStart), [], []) (Drop ''e2'' ''e5'')
          = (app (run bookEngine evsStart), [], [])"
    by (simp_all add: optList_def)
  with c r show ?thesis
    using bookEngine_move_sound f l by (simp only: f)
qed

text \<open>
  C9. The history \<^verbatim>\<open>handleMove\<close> hands to \<^verbatim>\<open>generateMove\<close> is the history before the
  human's half-move was appended: it is the new history without its last entry, the
  prompt is composed from it, and its trailing window is the run of entries that ends
  just before the human's entry.
\<close>

theorem request_carries_history_before_human_move:
  assumes "handleMove_start E a newFen mv = (a', Some req)"
  shows "q_moveHistory req = moveHistory a
       \<and> moveHistory a' = moveHistory a @ [playerEntry newFen mv]
       \<and> q_moveHistory req = butlast (moveHistory a')
       \<and> q_fen req = newFen
       \<and> requestPrompt E X (q_fen req) (q_moveHistory req)
           = requestPrompt E X newFen (butlast (moveHistory a'))
       \<and> moveHistory a'
           = take (length (moveHistory a) - 7) (moveHistory a)
             @ recentMoves (q_moveHistory req) @ [playerEntry newFen mv]"
proof -
  from assms have q: "q_moveHistory req = moveHistory a" and f: "q_fen req = newFen"
    and h: "moveHistory a' = moveHistory a @ [playerEntry newFen mv]"
    by (auto simp: handleMove_start_def Let_def split: option.splits if_splits)
  have "take (length (moveHistory a) - 7) (moveHistory a) @ recentMoves (moveHistory a)
          = moveHistory a"
    by (simp add: recentMoves_def)
  then show ?thesis
    using q f h by simp
qed

theorem request_carries_history_before_human_move_witness:
  "handleMove_start bookEngine (app (run bookEngine (evsOpening @ [Settle 0 (answering e7e5) 0, Fire 0])))
      fenG4 (mkMove ''g2'' ''g4'' ''p'' ''g4'')
     = (app (run bookEngine (evsOpening @ [Settle 0 (answering e7e5) 0, Fire 0, Drop ''g2'' ''g4''])),
        Some (hd (fst (snd (run bookEngine
                (evsOpening @ [Settle 0 (answering e7e5) 0, Fire 0, Drop ''g2'' ''g4'']))))))
   \<and> map h_san (q_moveHistory (hd (fst (snd (run bookEngine
                (evsOpening @ [Settle 0 (answering e7e5) 0, Fire 0, Drop ''g2'' ''g4''])))))) = [''f3'', ''e5'']
   \<and> map h_san (moveHistory (app (run bookEngine
                (evsOpening @ [Settle 0 (answering e7e5) 0, Fire 0, Drop ''g2'' ''g4''])))) = [''f3'', ''e5'', ''g4'']"
proof -
  have h: "handleMove_start bookEngine (app (run bookEngine (evsOpening @ [Settle 0 (answering e7e5) 0, Fire 0])))
      fenG4 (mkMove ''g2'' ''g4'' ''p'' ''g4'')
     = (app (run bookEngine (evsOpening @ [Settle 0 (answering e7e5) 0, Fire 0, Drop ''g2'' ''g4''])),
        Some (hd (fst (snd (run bookEngine
                (evsOpening @ [Settle 0 (answering e7e5) 0, Fire 0, Drop ''g2'' ''g4'']))))))"
    by code_simp
  have m: "map h_san (moveHistory (app (run bookEngine
                (evsOpening @ [Settle 0 (answering e7e5) 0, Fire 0])))) = [''f3'', ''e5'']"
    by code_simp
  have e: "h_san (playerEntry fenG4 (mkMove ''g2'' ''g4'' ''p'' ''g4'')) = ''g4''"
    by code_simp
  from request_carries_history_before_human_move [OF h] m e h show ?thesis
    by simp
qed




text \<open>
  C8, as stated: the tendency commentary names the first of pawn, knight, bishop that
  the human moved at least twice in the window, and "piece development" otherwise.
  When the human's second move is answered, the window holds one move of the human
  and one of the model: no kind reaches two, and the prompt says "play aggressively",
  not "piece development".
\<close>

theorem tendency_label_counterexample:
  "q_moveHistory (hd (fst (snd (run bookEngine (evsReplied @ [Drop ''g2'' ''g4''])))))
     = moveHistory (app (run bookEngine evsReplied))
   \<and> map h_player (recentMoves (moveHistory (app (run bookEngine evsReplied)))) = [You, AI]
   \<and> humanKinds (recentMoves (moveHistory (app (run bookEngine evsReplied)))) = [''p'']
   \<and> favouredLabel (humanKinds (recentMoves (moveHistory (app (run bookEngine evsReplied)))))
       = ''piece development''
   \<and> tendencyComment (recentMoves (moveHistory (app (run bookEngine evsReplied))))
       = ''The human player tends to play aggressively''
   \<and> str_includes (requestPrompt bookEngine (answering e7e5) fenG4
                       (moveHistory (app (run bookEngine evsReplied))))
         ''- The human player tends to play aggressively''
   \<and> \<not> str_includes (requestPrompt bookEngine (answering e7e5) fenG4
                         (moveHistory (app (run bookEngine evsReplied))))
           ''piece development''"
  by code_simp

text \<open>
  C8, amended: the first bullet of the prompt's pattern commentary, for the window of
  the last seven history entries. When the window holds at least two moves of the
  human, it names the first of pawn, knight, bishop that at least two of those moves
  were made with, and "piece development" if there is none. When it holds fewer, the
  bullet is "The human player tends to play aggressively" for a window of two or more
  entries and "This is early in the game" otherwise. The bullet stands in the history
  block, which follows the opening sentence and the FEN line of the prompt of the
  request; with an empty history the block is "This is the beginning of the game."
\<close>

theorem tendency_label_by_priority:
  "tendencyComment (recentMoves hist)
     = (if 2 \<le> length (humanKinds (recentMoves hist))
        then ''The human player tends to favor '' @ favouredLabel (humanKinds (recentMoves hist))
        else if 2 \<le> length (recentMoves hist)
        then ''The human player tends to play aggressively''
        else ''This is early in the game'')
   \<and> (recentMoves hist \<noteq> [] \<longrightarrow>
        historyBlock hist
          = ''Recent game history (last '' @ show_nat (length (recentMoves hist)) @ '' moves):'' @ nl
            @ formattedHistory hist @ nl @ nl
            @ ''Based on this game history, I can see the following patterns and strategies:'' @ nl
            @ ''- '' @ tendencyComment (recentMoves hist) @ nl
            @ ''- '' @ captureComment (recentMoves hist) @ nl)
   \<and> (recentMoves hist = [] \<longrightarrow> historyBlock hist = ''This is the beginning of the game.'')
   \<and> startsWith (requestPrompt E X fenStr hist)
        (''You are an expert chess player with a 1800 ELO rating. You will analyze the current board position and choose the best move.'' @ nl
         @ nl
         @ ''The current board position in FEN notation is: '' @ fenStr @ nl
         @ ''          '' @ nl
         @ historyBlock hist)"
proof -
  let ?recent = "recentMoves hist"
  let ?head = "''You are an expert chess player with a 1800 ELO rating. You will analyze the current board position and choose the best move.'' @ nl
         @ nl
         @ ''The current board position in FEN notation is: '' @ fenStr @ nl
         @ ''          '' @ nl
         @ historyBlock hist"
  have "length (filter (\<lambda>m. h_player m = You) ?recent) \<le> length ?recent"
    by (rule length_filter_le)
  then have "2 \<le> length (humanKinds ?recent) \<Longrightarrow> 2 \<le> length ?recent"
    unfolding length_humanKinds by linarith
  then have t: "tendencyComment ?recent
     = (if 2 \<le> length (humanKinds ?recent)
        then ''The human player tends to favor '' @ favouredLabel (humanKinds ?recent)
        else if 2 \<le> length ?recent
        then ''The human player tends to play aggressively''
        else ''This is early in the game'')"
    by (auto simp: tendencyComment_def favouredLabel_unfold count_human_kind length_humanKinds)
  have b: "historyBlock hist
          = ''Recent game history (last '' @ show_nat (length ?recent) @ '' moves):'' @ nl
            @ formattedHistory hist @ nl @ nl
            @ ''Based on this game history, I can see the following patterns and strategies:'' @ nl
            @ ''- '' @ tendencyComment ?recent @ nl
            @ ''- '' @ captureComment ?recent @ nl"
    if "?recent \<noteq> []"
    using that by (simp add: historyBlock_def Let_def)
  have e: "historyBlock hist = ''This is the beginning of the game.''" if "?recent = []"
    using that by (simp add: historyBlock_def Let_def)
  obtain rest where "requestPrompt E X fenStr hist = ?head @ rest"
    by (simp add: requestPrompt_def composePrompt_def Let_def)
  then have p: "startsWith (requestPrompt E X fenStr hist) ?head"
    by (simp only: startsWith_append)
  from t b e p show ?thesis by blast
qed

theorem tendency_label_by_priority_witness:
  "recentMoves histMinor \<noteq> []
   \<and> humanKinds (recentMoves histMinor) = [''b'', ''n'', ''b'', ''n'']
   \<and> tendencyComment (recentMoves histMinor)
       = ''The human player tends to favor knight development''
   \<and> historyBlock histMinor
       = ''Recent game history (last 4 moves):'' @ nl
         @ formattedHistory histMinor @ nl @ nl
         @ ''Based on this game history, I can see the following patterns and strategies:'' @ nl
         @ ''- The human player tends to favor knight development'' @ nl
         @ ''- No pieces have been captured yet'' @ nl
   \<and> startsWith (requestPrompt bookEngine (answering e7e5) fenF3 histMinor)
        (''You are an expert chess player with a 1800 ELO rating. You will analyze the current board position and choose the best move.'' @ nl
         @ nl
         @ ''The current board position in FEN notation is: '' @ fenF3 @ nl
         @ ''          '' @ nl
         @ historyBlock histMinor)"
proof -
  have n: "recentMoves histMinor \<noteq> []" by code_simp
  have k: "humanKinds (recentMoves histMinor) = [''b'', ''n'', ''b'', ''n'']" by code_simp
  have f: "favouredLabel [''b'', ''n'', ''b'', ''n''] = ''knight development''" by code_simp
  have l: "show_nat (length (recentMoves histMinor)) = ''4''" by code_simp
  have c: "captureComment (recentMoves histMinor) = ''No pieces have been captured yet''"
    by code_simp
  note T = tendency_label_by_priority [of histMinor bookEngine "answering e7e5" fenF3]
  from T have t: "tendencyComment (recentMoves histMinor)
       = ''The human player tends to favor knight development''"
    using k f by simp
  from T n have b: "historyBlock histMinor
          = ''Recent game history (last '' @ show_nat (length (recentMoves histMinor)) @ '' moves):'' @ nl
            @ formattedHistory histMinor @ nl @ nl
            @ ''Based on this game history, I can see the following patterns and strategies:'' @ nl
            @ ''- '' @ tendencyComment (recentMoves histMinor) @ nl
            @ ''- '' @ captureComment (recentMoves histMinor) @ nl"
    by blast
  from T have p: "startsWith (requestPrompt bookEngine (answering e7e5) fenF3 histMinor)
        (''You are an expert chess player with a 1800 ELO rating. You will analyze the current board position and choose the best move.'' @ nl
         @ nl
         @ ''The current board position in FEN notation is: '' @ fenF3 @ nl
         @ ''          '' @ nl
         @ historyBlock histMinor)"
    by blast
  have b': "historyBlock histMinor
       = ''Recent game history (last 4 moves):'' @ nl
         @ formattedHistory histMinor @ nl @ nl
         @ ''Based on this game history, I can see the following patterns and strategies:'' @ nl
         @ ''- The human player tends to favor knight development'' @ nl
         @ ''- No pieces have been captured yet'' @ nl"
    unfolding b t l c by simp
  from n k t b' p show ?thesis by blast
qed




text \<open>
  C3, as stated: a completion result that arrives after the game has ended changes no
  field of the game state and appends no history entry. In the run in which the
  model's clock runs out while its request is outstanding, the result that arrives
  afterwards changes the game state (back to playing) and appends the second history
  entry.
\<close>

theorem late_result_counterexample:
  "gameStatus (gameState (app (run bookEngine evsFlagged))) = Ended
   \<and> resultReason (gameState (app (run bookEngine evsFlagged))) = Some Time
   \<and> length (fst (snd (run bookEngine evsFlagged))) = 1
   \<and> gameState (app (run bookEngine evsLate)) \<noteq> gameState (app (run bookEngine evsFlagged))
   \<and> gameStatus (gameState (app (run bookEngine evsLate))) = Playing
   \<and> length (moveHistory (app (run bookEngine evsFlagged))) = 1
   \<and> length (moveHistory (app (run bookEngine evsLate))) = 2"
  by code_simp

text \<open>
  C3, amended: a completion result that arrives after the game has ended is not
  discarded. \<^verbatim>\<open>handleMove\<close> schedules its update whatever the status is, and the
  update sets \<open>fen\<close> to the model's position, \<open>isPlayerTurn\<close> to true, \<open>gameStatus\<close>,
  \<open>inCheck\<close> and \<open>checkSquare\<close> to what \<^verbatim>\<open>checkGameStatus\<close> finds for that position,
  keeps \<open>result\<close> and \<open>resultReason\<close> when that position does not end the game, and
  appends the model's history entry.
\<close>

theorem late_result_is_merged:
  assumes "gameStatus (gameState a) = Ended"
      and "0 \<le> u" and "u < 1"
      and "generateMove E X u (q_fen q) (q_moveHistory q) (q_apiKey q) (q_modelName q) = Inr aiMove"
      and "load E (r_fen aiMove) = None"
  shows "(let a' = app (step E (step E (a, [q], []) (Settle 0 X u)) (Fire 0))
          in step E (step E (a, [q], []) (Settle 0 X u)) (Fire 0) = (a', [], [])
             \<and> moveHistory a' = moveHistory a @ [aiEntry aiMove]
             \<and> fen (gameState a') = r_fen aiMove
             \<and> isPlayerTurn (gameState a')
             \<and> gameStatus (gameState a') = u_gameStatus (checkGameStatus E (r_fen aiMove))
             \<and> inCheck (gameState a') = u_inCheck (checkGameStatus E (r_fen aiMove))
             \<and> checkSquare (gameState a') = u_checkSquare (checkGameStatus E (r_fen aiMove))
             \<and> (u_gameStatus (checkGameStatus E (r_fen aiMove)) = Playing \<longrightarrow>
                  result (gameState a') = result (gameState a)
                  \<and> resultReason (gameState a') = resultReason (gameState a)))"
proof -
  have settle: "step E (a, [q], []) (Settle 0 X u)
      = (a\<lparr> chessRef := r_fen aiMove \<rparr>, [],
         [\<lparr> t_aiMove = aiMove, t_status = checkGameStatus E (r_fen aiMove) \<rparr>])"
    using assms(2-5) by (simp add: handleMove_resume_def dropNth_def optList_def)
  have playing: "u_result (checkGameStatus E (r_fen aiMove)) = None
      \<and> u_resultReason (checkGameStatus E (r_fen aiMove)) = None"
    if "u_gameStatus (checkGameStatus E (r_fen aiMove)) = Playing"
    using that by (auto simp: checkGameStatus_def split: if_splits)
  show ?thesis
    unfolding Let_def settle
    using playing
    by (auto simp: app_def handleMove_timeout_def spread_def dropNth_def)
qed

theorem late_result_is_merged_witness:
  "gameStatus (gameState (app (run bookEngine evsFlagged))) = Ended
   \<and> generateMove bookEngine (answering e7e5) 0 fenF3 [] ''sk-test'' ''gpt-4o''
       = Inr \<lparr> r_fen = fenF3e5, r_move = mkMove ''e7'' ''e5'' ''p'' ''e5'',
               r_reasoning = ''Takes the centre.'' \<rparr>
   \<and> load bookEngine fenF3e5 = None
   \<and> u_gameStatus (checkGameStatus bookEngine fenF3e5) = Playing
   \<and> moveHistory (app (run bookEngine evsLate))
       = moveHistory (app (run bookEngine evsFlagged))
         @ [aiEntry \<lparr> r_fen = fenF3e5, r_move = mkMove ''e7'' ''e5'' ''p'' ''e5'',
                       r_reasoning = ''Takes the centre.'' \<rparr>]
   \<and> fen (gameState (app (run bookEngine evsLate))) = fenF3e5
   \<and> isPlayerTurn (gameState (app (run bookEngine evsLate)))
   \<and> gameStatus (gameState (app (run bookEngine evsLate))) = Playing
   \<and> result (gameState (app (run bookEngine evsLate)))
       = result (gameState (app (run bookEngine evsFlagged)))"
proof -
  let ?q = "\<lparr> q_fen = fenF3, q_moveHistory = [], q_apiKey = ''sk-test'',
             q_modelName = ''gpt-4o'' \<rparr>"
  let ?res = "\<lparr> r_fen = fenF3e5, r_move = mkMove ''e7'' ''e5'' ''p'' ''e5'',
               r_reasoning = ''Takes the centre.'' \<rparr>"
  have e: "gameStatus (gameState (app (run bookEngine evsFlagged))) = Ended"
    by code_simp
  have u: "(0::real) \<le> 0" "(0::real) < 1"
    by simp_all
  have g0: "generateMove bookEngine (answering e7e5) 0 fenF3 [] ''sk-test'' ''gpt-4o'' = Inr ?res"
    by code_simp
  then have g: "generateMove bookEngine (answering e7e5) 0 (q_fen ?q) (q_moveHistory ?q)
                  (q_apiKey ?q) (q_modelName ?q) = Inr ?res"
    by simp
  have l0: "load bookEngine fenF3e5 = None"
    by code_simp
  then have l: "load bookEngine (r_fen ?res) = None"
    by simp
  have p: "u_gameStatus (checkGameStatus bookEngine fenF3e5) = Playing"
    by code_simp
  have c: "run bookEngine evsFlagged = (app (run bookEngine evsFlagged), [?q], [])"
    by code_simp
  have "run bookEngine evsLate
          = step bookEngine (step bookEngine (run bookEngine evsFlagged)
                               (Settle 0 (answering e7e5) 0)) (Fire 0)"
    by (simp add: run_def evsLate_def)
  with c have r: "step bookEngine (step bookEngine (app (run bookEngine evsFlagged), [?q], [])
                                     (Settle 0 (answering e7e5) 0)) (Fire 0)
                    = run bookEngine evsLate"
    by (simp only:)
  from late_result_is_merged [OF e u g l] have
    "moveHistory (app (run bookEngine evsLate))
       = moveHistory (app (run bookEngine evsFlagged)) @ [aiEntry ?res]
     \<and> fen (gameState (app (run bookEngine evsLate))) = fenF3e5
     \<and> isPlayerTurn (gameState (app (run bookEngine evsLate)))
     \<and> gameStatus (gameState (app (run bookEngine evsLate))) = Playing
     \<and> result (gameState (app (run bookEngine evsLate)))
       = result (gameState (app (run bookEngine evsFlagged)))"
    unfolding r Let_def using p by simp
  with e g0 l0 p show ?thesis
    by (simp only:)
qed

end
